theory Spec2Isabelle
  imports Complex_Main
begin

section \<open>Data model\<close>

text \<open>
  The persisted records of the invoicing application, as the route handlers read and
  write them through the persistence layer. Amounts are JavaScript numbers in the
  source; they are modelled as exact rationals (type \<open>rat\<close>), so \<open>+\<close>, \<open>*\<close> and
  \<open>/\<close> below are exact. Where a claim speaks about IEEE double rounding, a second
  model with the rounding written out is given (section "Double rounding").
  Dates are milliseconds since the epoch (\<open>Date.getTime()\<close>), as integers.
  Identifiers are strings; a new identifier is supplied by the caller of an operation
  (the persistence layer generates it), and the primary key is enforced on insert.
  A request body is the parsed JSON with fields of the right type: numbers are finite,
  and a date string has been turned into its timestamp. The current time, where a handler
  reads the clock, is the argument \<open>now\<close>. Columns that no handler modelled here
  reads (the payment link, the creation time) are left out; a payment column that the
  handler leaves to the schema default is \<open>None\<close>.
\<close>

datatype status = Draft | Sent | Paid | Overdue | Cancelled

datatype error =
    Unauthorized
  | NotFound
  | Validation
  | BadRequest string
  | UniqueConstraint
  | TypeError

record item =
  description :: string
  quantity :: rat
  rate :: rat
  amount :: rat

record invoice =
  inv_id :: string
  number :: string
  status :: status
  issueDate :: int
  dueDate :: int
  subtotal :: rat
  taxRate :: rat
  tax :: rat
  total :: rat
  inv_notes :: "string option"
  inv_terms :: "string option"
  currency :: string
  clientId :: string
  userId :: string
  reminderCount :: nat
  lastRemindedAt :: "int option"
  items :: "item list"

record payment =
  pay_id :: string
  invoiceId :: string
  pay_amount :: rat
  pay_method :: string
  gateway :: "string option"
  gatewayPaymentId :: "string option"
  reference :: "string option"
  pay_status :: "string option"
  paidAt :: int

record user =
  user_id :: string
  invoiceCounter :: nat

record client =
  client_id :: string
  client_name :: string

text \<open>
  The store. \<open>invoices\<close> and \<open>payments\<close> are kept in creation order, so
  \<open>orderBy: { createdAt: "desc" }\<close> is the reversed list.
\<close>

record db =
  users :: "user list"
  clients :: "client list"
  invoices :: "invoice list"
  payments :: "payment list"

section \<open>Queries and writes of the persistence layer\<close>

definition findInvoice :: "string \<Rightarrow> string \<Rightarrow> db \<Rightarrow> invoice option" where
  \<comment> \<open>\<open>prisma.invoice.findFirst({ where: { id, userId } })\<close>\<close>
  "findInvoice iid uid d = find (\<lambda>i. inv_id i = iid \<and> userId i = uid) (invoices d)"

definition findInvoiceUnique :: "string \<Rightarrow> db \<Rightarrow> invoice option" where
  \<comment> \<open>\<open>prisma.invoice.findUnique({ where: { id } })\<close>\<close>
  "findInvoiceUnique iid d = find (\<lambda>i. inv_id i = iid) (invoices d)"

definition paymentsOf :: "string \<Rightarrow> db \<Rightarrow> payment list" where
  "paymentsOf iid d = filter (\<lambda>p. invoiceId p = iid) (payments d)"

definition sumPaid :: "string \<Rightarrow> db \<Rightarrow> rat" where
  \<comment> \<open>\<open>payments.reduce((sum, p) => sum + p.amount, 0)\<close>, and the aggregate \<open>_sum.amount || 0\<close>\<close>
  "sumPaid iid d = foldl (\<lambda>s p. s + pay_amount p) 0 (paymentsOf iid d)"

definition updateInvoiceRow :: "string \<Rightarrow> (invoice \<Rightarrow> invoice) \<Rightarrow> db \<Rightarrow> db" where
  \<comment> \<open>\<open>prisma.invoice.update({ where: { id }, data })\<close> on a row known to exist\<close>
  "updateInvoiceRow iid f d =
     d\<lparr>invoices := map (\<lambda>i. if inv_id i = iid then f i else i) (invoices d)\<rparr>"

definition insertInvoice :: "bool \<Rightarrow> invoice \<Rightarrow> db \<Rightarrow> error + db" where
  \<comment> \<open>\<open>prisma.invoice.create\<close>. The primary key is unique. Whether the schema also declares
      the invoice number unique per user is not visible in the sources: \<open>uniqueNumber\<close>
      says whether it does.\<close>
  "insertInvoice uniqueNumber newInv d =
     (if inv_id newInv \<in> set (map inv_id (invoices d)) then Inl UniqueConstraint
      else if uniqueNumber \<and>
              (\<exists>i \<in> set (invoices d). userId i = userId newInv \<and> number i = number newInv)
           then Inl UniqueConstraint
      else Inr (d\<lparr>invoices := invoices d @ [newInv]\<rparr>))"

definition insertPayment :: "payment \<Rightarrow> db \<Rightarrow> error + db" where
  "insertPayment p d =
     (if pay_id p \<in> set (map pay_id (payments d)) then Inl UniqueConstraint
      else Inr (d\<lparr>payments := payments d @ [p]\<rparr>))"

section \<open>Invoice numbers\<close>

definition isDigit :: "char \<Rightarrow> bool" where
  "isDigit c = (c \<in> set ''0123456789'')"

fun matchINV :: "string \<Rightarrow> string option" where
  \<comment> \<open>\<open>s.match(/INV-(\d+)/)\<close>: the digits captured by the leftmost match\<close>
  "matchINV [] = None"
| "matchINV (c # cs) =
     (if take 4 (c # cs) = ''INV-'' \<and> takeWhile isDigit (drop 4 (c # cs)) \<noteq> []
      then Some (takeWhile isDigit (drop 4 (c # cs)))
      else matchINV cs)"

definition digitVal :: "char \<Rightarrow> nat" where
  "digitVal c = length (takeWhile (\<lambda>d. d \<noteq> c) ''0123456789'')"

definition parseInt :: "string \<Rightarrow> nat" where
  \<comment> \<open>\<open>parseInt\<close> on a non-empty string of decimal digits\<close>
  "parseInt s = foldl (\<lambda>n c. 10 * n + digitVal c) 0 s"

fun showNat :: "nat \<Rightarrow> string" where
  \<comment> \<open>\<open>String(n)\<close> for a natural number\<close>
  "showNat n =
     (if n < 10 then [''0123456789'' ! n]
      else showNat (n div 10) @ [''0123456789'' ! (n mod 10)])"

declare showNat.simps [simp del]

definition padStart3 :: "string \<Rightarrow> string" where
  \<comment> \<open>\<open>s.padStart(3, "0")\<close>\<close>
  "padStart3 s = replicate (3 - length s) CHR ''0'' @ s"

definition invoiceNumber :: "nat \<Rightarrow> string" where
  "invoiceNumber n = ''INV-'' @ padStart3 (showNat n)"

definition nextNumber :: "string \<Rightarrow> db \<Rightarrow> nat" where
  \<comment> \<open>creation path: the most recently created invoice of the user decides\<close>
  "nextNumber uid d =
     (case find (\<lambda>i. userId i = uid) (rev (invoices d)) of
        None \<Rightarrow> 1
      | Some lastInvoice \<Rightarrow>
          (case matchINV (number lastInvoice) of
             None \<Rightarrow> 1
           | Some ds \<Rightarrow> parseInt ds + 1))"

section \<open>Total computation\<close>

record item_input =
  in_description :: string
  in_quantity :: rat
  in_rate :: rat

definition mkItem :: "item_input \<Rightarrow> item" where
  "mkItem it = \<lparr>description = in_description it, quantity = in_quantity it,
                rate = in_rate it, amount = in_quantity it * in_rate it\<rparr>"

definition sumAmounts :: "item list \<Rightarrow> rat" where
  \<comment> \<open>\<open>items.reduce((sum, item) => sum + item.amount, 0)\<close>\<close>
  "sumAmounts its = foldl (\<lambda>s it. s + amount it) 0 its"

definition validItem :: "item_input \<Rightarrow> bool" where
  "validItem it = (in_description it \<noteq> [] \<and> 0 < in_quantity it \<and> 0 \<le> in_rate it)"

section \<open>createInvoice\<close>

record create_body =
  c_clientId :: string
  c_issueDate :: int
  c_dueDate :: int
  c_notes :: "string option"
  c_terms :: "string option"
  c_currency :: "string option"
  c_taxRate :: "rat option"
  c_status :: "status option"
  c_items :: "item_input list"

definition validCreate :: "create_body \<Rightarrow> bool" where
  \<comment> \<open>\<open>createInvoiceSchema\<close>\<close>
  "validCreate b =
     (c_clientId b \<noteq> [] \<and>
      (case c_taxRate b of None \<Rightarrow> True | Some t \<Rightarrow> 0 \<le> t \<and> t \<le> 100) \<and>
      (case c_status b of None \<Rightarrow> True | Some s \<Rightarrow> s = Draft \<or> s = Sent) \<and>
      list_all validItem (c_items b) \<and> c_items b \<noteq> [])"

definition orNull :: "string option \<Rightarrow> string option" where
  \<comment> \<open>\<open>x || null\<close> on an optional string: the empty string is falsy\<close>
  "orNull x = (case x of None \<Rightarrow> None | Some s \<Rightarrow> if s = [] then None else Some s)"

definition createInvoice ::
  "bool \<Rightarrow> string \<Rightarrow> string option \<Rightarrow> create_body \<Rightarrow> db \<Rightarrow> (error + invoice) \<times> db" where
  "createInvoice uniqueNumber newId session b d =
     (case session of
        None \<Rightarrow> (Inl Unauthorized, d)
      | Some uid \<Rightarrow>
          if \<not> validCreate b then (Inl Validation, d)
          else
            let taxRate' = (case c_taxRate b of None \<Rightarrow> 0 | Some t \<Rightarrow> t);
                its = map mkItem (c_items b);
                subtotal' = sumAmounts its;
                tax' = subtotal' * (taxRate' / 100);
                total' = subtotal' + tax';
                newInv = \<lparr>inv_id = newId,
                       number = invoiceNumber (nextNumber uid d),
                       status = (case c_status b of None \<Rightarrow> Draft | Some s \<Rightarrow> s),
                       issueDate = c_issueDate b,
                       dueDate = c_dueDate b,
                       subtotal = subtotal',
                       taxRate = taxRate',
                       tax = tax',
                       total = total',
                       inv_notes = orNull (c_notes b),
                       inv_terms = orNull (c_terms b),
                       currency = (case c_currency b of None \<Rightarrow> ''USD'' | Some c \<Rightarrow> c),
                       clientId = c_clientId b,
                       userId = uid,
                       reminderCount = 0,
                       lastRemindedAt = None,
                       items = its\<rparr>
            in (case insertInvoice uniqueNumber newInv d of
                  Inl e \<Rightarrow> (Inl e, d)
                | Inr d' \<Rightarrow> (Inr newInv, d')))"

section \<open>updateInvoice\<close>

record update_body =
  u_clientId :: "string option"
  u_issueDate :: "int option"
  u_dueDate :: "int option"
  u_notes :: "string option option"
  u_terms :: "string option option"
  u_currency :: "string option"
  u_taxRate :: "rat option"
  u_status :: "status option"
  u_items :: "item_input list option"

definition validUpdate :: "update_body \<Rightarrow> bool" where
  \<comment> \<open>\<open>updateInvoiceSchema\<close>\<close>
  "validUpdate b =
     ((case u_clientId b of None \<Rightarrow> True | Some c \<Rightarrow> c \<noteq> []) \<and>
      (case u_taxRate b of None \<Rightarrow> True | Some t \<Rightarrow> 0 \<le> t \<and> t \<le> 100) \<and>
      (case u_items b of None \<Rightarrow> True
       | Some its \<Rightarrow> list_all (\<lambda>it. in_description it \<noteq> [] \<and> 0 < in_quantity it \<and> 0 \<le> in_rate it) its))"

definition applyPlain :: "update_body \<Rightarrow> invoice \<Rightarrow> invoice" where
  \<comment> \<open>the fields copied into \<open>updateData\<close> before the totals are looked at\<close>
  "applyPlain b i =
     (let i1 = (case u_clientId b of None \<Rightarrow> i | Some c \<Rightarrow> if c = [] then i else i\<lparr>clientId := c\<rparr>);
          i2 = (case u_issueDate b of None \<Rightarrow> i1 | Some t \<Rightarrow> i1\<lparr>issueDate := t\<rparr>);
          i3 = (case u_dueDate b of None \<Rightarrow> i2 | Some t \<Rightarrow> i2\<lparr>dueDate := t\<rparr>);
          i4 = (case u_notes b of None \<Rightarrow> i3 | Some n \<Rightarrow> i3\<lparr>inv_notes := n\<rparr>);
          i5 = (case u_terms b of None \<Rightarrow> i4 | Some n \<Rightarrow> i4\<lparr>inv_terms := n\<rparr>);
          i6 = (case u_currency b of None \<Rightarrow> i5 | Some c \<Rightarrow> if c = [] then i5 else i5\<lparr>currency := c\<rparr>)
      in (case u_status b of None \<Rightarrow> i6 | Some s \<Rightarrow> i6\<lparr>status := s\<rparr>))"

definition applyUpdate :: "invoice \<Rightarrow> update_body \<Rightarrow> invoice \<Rightarrow> invoice" where
  \<comment> \<open>what \<open>prisma.invoice.update\<close> writes, given the row \<open>existing\<close> read at the start\<close>
  "applyUpdate existing b i =
     (case u_items b of
        Some its_in \<Rightarrow>
          let taxRate' = (case u_taxRate b of None \<Rightarrow> taxRate existing | Some t \<Rightarrow> t);
              its = map mkItem its_in;
              subtotal' = sumAmounts its;
              tax' = subtotal' * (taxRate' / 100);
              total' = subtotal' + tax'
          in (applyPlain b i)\<lparr>subtotal := subtotal', tax := tax', taxRate := taxRate',
                               total := total', items := its\<rparr>
      | None \<Rightarrow>
          (case u_taxRate b of
             Some t \<Rightarrow>
               let subtotal' = subtotal existing;
                   tax' = subtotal' * (t / 100);
                   total' = subtotal' + tax'
               in (applyPlain b i)\<lparr>taxRate := t, tax := tax', total := total'\<rparr>
           | None \<Rightarrow> applyPlain b i))"

definition updateInvoice ::
  "string option \<Rightarrow> string \<Rightarrow> update_body \<Rightarrow> db \<Rightarrow> (error + invoice) \<times> db" where
  "updateInvoice session iid b d =
     (case session of
        None \<Rightarrow> (Inl Unauthorized, d)
      | Some uid \<Rightarrow>
          (case findInvoice iid uid d of
             None \<Rightarrow> (Inl NotFound, d)
           | Some existing \<Rightarrow>
               if \<not> validUpdate b then (Inl Validation, d)
               else (Inr (applyUpdate existing b existing),
                     updateInvoiceRow iid (applyUpdate existing b) d)))"

section \<open>recordPayment\<close>

record payment_body =
  pb_amount :: rat
  pb_method :: string
  pb_reference :: "string option"
  pb_paidAt :: "int option"

definition paymentMethods :: "string list" where
  "paymentMethods = [''bank_transfer'', ''credit_card'', ''paypal'', ''check'', ''cash'', ''other'']"

definition validPayment :: "payment_body \<Rightarrow> bool" where
  \<comment> \<open>\<open>createPaymentSchema\<close>\<close>
  "validPayment b = (0 < pb_amount b \<and> pb_method b \<in> set paymentMethods)"

definition markPaid :: "invoice \<Rightarrow> invoice" where
  "markPaid i = i\<lparr>status := Paid\<rparr>"

definition recordPayment ::
  "int \<Rightarrow> string \<Rightarrow> string option \<Rightarrow> string \<Rightarrow> payment_body \<Rightarrow> db \<Rightarrow> (error + payment) \<times> db" where
  "recordPayment now newId session iid b d =
     (case session of
        None \<Rightarrow> (Inl Unauthorized, d)
      | Some uid \<Rightarrow>
          (case findInvoice iid uid d of
             None \<Rightarrow> (Inl NotFound, d)
           | Some invoice \<Rightarrow>
               if \<not> validPayment b then (Inl Validation, d)
               else
                 let totalPaid = sumPaid iid d + pb_amount b
                 in if totalPaid > total invoice
                    then (Inl (BadRequest ''Payment amount exceeds remaining balance''), d)
                    else
                      let p = \<lparr>pay_id = newId, invoiceId = iid, pay_amount = pb_amount b,
                               pay_method = pb_method b, gateway = None,
                               gatewayPaymentId = None, reference = orNull (pb_reference b),
                               pay_status = None,
                               paidAt = (case pb_paidAt b of None \<Rightarrow> now | Some t \<Rightarrow> t)\<rparr>
                      in (case insertPayment p d of
                            Inl e \<Rightarrow> (Inl e, d)
                          | Inr d1 \<Rightarrow>
                              (Inr p,
                               if \<bar>totalPaid - total invoice\<bar> < 1 / 100
                               then updateInvoiceRow iid markPaid d1
                               else d1))))"

section \<open>processOnlinePayment\<close>






section \<open>Send, remind, overdue sweep\<close>

definition sendInvoice :: "string option \<Rightarrow> string \<Rightarrow> db \<Rightarrow> (error + invoice) \<times> db" where
  "sendInvoice session iid d =
     (case session of
        None \<Rightarrow> (Inl Unauthorized, d)
      | Some uid \<Rightarrow>
          (case findInvoice iid uid d of
             None \<Rightarrow> (Inl NotFound, d)
           | Some invoice \<Rightarrow>
               if status invoice \<noteq> Draft \<and> status invoice \<noteq> Sent
               then (Inl (BadRequest ''Only draft or sent invoices can be sent''), d)
               else (Inr (invoice\<lparr>status := Sent\<rparr>),
                     updateInvoiceRow iid (\<lambda>i. i\<lparr>status := Sent\<rparr>) d)))"

definition sendReminder :: "int \<Rightarrow> string option \<Rightarrow> string \<Rightarrow> db \<Rightarrow> (error + nat) \<times> db" where
  "sendReminder now session iid d =
     (case session of
        None \<Rightarrow> (Inl Unauthorized, d)
      | Some uid \<Rightarrow>
          (case findInvoice iid uid d of
             None \<Rightarrow> (Inl NotFound, d)
           | Some invoice \<Rightarrow>
               if status invoice \<noteq> Sent \<and> status invoice \<noteq> Overdue
               then (Inl (BadRequest ''Can only send reminders for sent or overdue invoices''), d)
               else (Inr (reminderCount invoice + 1),
                     updateInvoiceRow iid
                       (\<lambda>i. i\<lparr>reminderCount := reminderCount invoice + 1,
                               lastRemindedAt := Some now\<rparr>) d)))"

datatype email_type = InvoiceEmail | ReminderEmail | ConfirmationEmail

definition sendEmail :: "int \<Rightarrow> string option \<Rightarrow> string \<Rightarrow> email_type \<Rightarrow> db \<Rightarrow> (error + unit) \<times> db" where
  \<comment> \<open>the e-mail route; the rendered message is not modelled, only the guards and the writes\<close>
  "sendEmail now session iid ty d =
     (case session of
        None \<Rightarrow> (Inl Unauthorized, d)
      | Some uid \<Rightarrow>
          (case findInvoice iid uid d of
             None \<Rightarrow> (Inl NotFound, d)
           | Some invoice \<Rightarrow>
               (case ty of
                  ReminderEmail \<Rightarrow>
                    if status invoice \<noteq> Sent \<and> status invoice \<noteq> Overdue
                    then (Inl (BadRequest ''Can only send reminders for sent or overdue invoices''), d)
                    else (Inr (),
                          updateInvoiceRow iid
                            (\<lambda>i. i\<lparr>reminderCount := reminderCount invoice + 1,
                                    lastRemindedAt := Some now\<rparr>) d)
                | ConfirmationEmail \<Rightarrow>
                    if paymentsOf iid d = []
                    then (Inl (BadRequest ''No payments found for this invoice''), d)
                    else (Inr (), d)
                | InvoiceEmail \<Rightarrow>
                    if status invoice \<noteq> Draft \<and> status invoice \<noteq> Sent
                    then (Inl (BadRequest ''Only draft or sent invoices can be emailed''), d)
                    else (Inr (), updateInvoiceRow iid (\<lambda>i. i\<lparr>status := Sent\<rparr>) d))))"

definition isDue :: "int \<Rightarrow> string \<Rightarrow> invoice \<Rightarrow> bool" where
  \<comment> \<open>\<open>where: { userId, status: "sent", dueDate: { lt: now } }\<close>\<close>
  "isDue now uid i = (userId i = uid \<and> status i = Sent \<and> dueDate i < now)"

definition checkOverdueInvoices :: "int \<Rightarrow> string \<Rightarrow> db \<Rightarrow> nat \<times> db" where
  \<comment> \<open>\<open>prisma.invoice.updateMany\<close>, returning \<open>result.count\<close>\<close>
  "checkOverdueInvoices now uid d =
     (length (filter (isDue now uid) (invoices d)),
      d\<lparr>invoices := map (\<lambda>i. if isDue now uid i then i\<lparr>status := Overdue\<rparr> else i) (invoices d)\<rparr>)"

section \<open>duplicateInvoice\<close>

definition days30 :: int where
  \<comment> \<open>\<open>setDate(getDate() + 30)\<close>: thirty calendar days, taken as 30 times 24 hours; the two
      clock reads of the handler (\<open>now\<close> and the start of \<open>dueDate\<close>) are one instant\<close>
  "days30 = 30 * 24 * 60 * 60 * 1000"

definition bumpCounter :: "string \<Rightarrow> nat \<Rightarrow> db \<Rightarrow> db" where
  "bumpCounter uid n d =
     d\<lparr>users := map (\<lambda>u. if user_id u = uid then u\<lparr>invoiceCounter := n\<rparr> else u) (users d)\<rparr>"

definition duplicateInvoice ::
  "bool \<Rightarrow> int \<Rightarrow> string \<Rightarrow> string option \<Rightarrow> string \<Rightarrow> db \<Rightarrow> (error + invoice) \<times> db" where
  \<comment> \<open>The counter update and the insert run in one transaction: when the insert fails,
      the store is left as it was.\<close>
  "duplicateInvoice uniqueNumber now newId session iid d =
     (case session of
        None \<Rightarrow> (Inl Unauthorized, d)
      | Some uid \<Rightarrow>
          (case findInvoice iid uid d of
             None \<Rightarrow> (Inl NotFound, d)
           | Some invoice \<Rightarrow>
               (case find (\<lambda>u. user_id u = uid) (users d) of
                  None \<Rightarrow> (Inl NotFound, d)
                | Some userData \<Rightarrow>
                    let nextCounter = invoiceCounter userData + 1;
                        d1 = bumpCounter uid nextCounter d;
                        newInvoice =
                          \<lparr>inv_id = newId,
                           number = invoiceNumber nextCounter,
                           status = Draft,
                           issueDate = now,
                           dueDate = now + days30,
                           subtotal = subtotal invoice,
                           taxRate = taxRate invoice,
                           tax = tax invoice,
                           total = total invoice,
                           inv_notes = inv_notes invoice,
                           inv_terms = inv_terms invoice,
                           currency = currency invoice,
                           clientId = clientId invoice,
                           userId = uid,
                           reminderCount = 0,
                           lastRemindedAt = None,
                           items = map (\<lambda>it. \<lparr>description = description it,
                                                quantity = quantity it, rate = rate it,
                                                amount = amount it\<rparr>) (items invoice)\<rparr>
                    in (case insertInvoice uniqueNumber newInvoice d1 of
                          Inl e \<Rightarrow> (Inl e, d)
                        | Inr d2 \<Rightarrow> (Inr newInvoice, d2)))))"

section \<open>Heuristics: strings and rounding\<close>








section \<open>suggestLineItems\<close>


















section \<open>detectDuplicateInvoice\<close>















section \<open>Double rounding\<close>

text \<open>
  The source computes on IEEE 754 doubles. \<open>fl64\<close> rounds a rational to the nearest
  double, ties to the even significand (53 significant bits); overflow and subnormal
  numbers are left out, so it is the rounding of the source for magnitudes between
  \<open>2^-1022\<close> and \<open>2^1023\<close>. \<open>recordPayment_f64\<close> is \<open>recordPayment\<close> with every
  addition and subtraction of the handler rounded, and with the literal \<open>0.01\<close> read as
  the double it denotes.
\<close>

definition pow2 :: "int \<Rightarrow> rat" where
  "pow2 e = (if 0 \<le> e then 2 ^ nat e else 1 / 2 ^ nat (- e))"

function log2floor :: "int \<Rightarrow> int" where
  "log2floor n = (if n < 2 then 0 else 1 + log2floor (n div 2))"
  by pat_completeness auto
termination
  by (relation "measure nat") auto

declare log2floor.simps [simp del]

definition expo :: "rat \<Rightarrow> int" where
  \<comment> \<open>the binary exponent of a non-zero number: the largest \<open>e\<close> with \<open>2^e \<le> \<bar>x\<bar>\<close>\<close>
  "expo x =
     (let a = \<bar>x\<bar>
      in if 1 \<le> a then log2floor \<lfloor>a\<rfloor>
         else
           let m = log2floor \<lfloor>1 / a\<rfloor>
           in if a * pow2 m = 1 then - m else - m - 1)"

definition roundEven :: "rat \<Rightarrow> int" where
  "roundEven q =
     (let f = \<lfloor>q\<rfloor>; r = q - of_int f
      in if r < 1 / 2 then f
         else if 1 / 2 < r then f + 1
         else if even f then f else f + 1)"

definition fl64 :: "rat \<Rightarrow> rat" where
  "fl64 x = (if x = 0 then 0 else of_int (roundEven (x / pow2 (expo x - 52))) * pow2 (expo x - 52))"




section \<open>The stored-totals invariant\<close>

definition totalsOk :: "invoice \<Rightarrow> bool" where
  "totalsOk i =
     (list_all (\<lambda>it. amount it = quantity it * rate it) (items i) \<and>
      subtotal i = sum_list (map amount (items i)) \<and>
      tax i = subtotal i * taxRate i / 100 \<and>
      total i = subtotal i + tax i)"

section \<open>Example data\<close>

text \<open>Concrete stores and requests on which the operations are run below.\<close>

definition ex_db0 :: db where
  "ex_db0 = \<lparr>users = [\<lparr>user_id = ''u1'', invoiceCounter = 0\<rparr>],
             clients = [\<lparr>client_id = ''c1'', client_name = ''Acme''\<rparr>],
             invoices = [], payments = []\<rparr>"

definition ex_items :: "item_input list" where
  "ex_items = [\<lparr>in_description = ''Design'', in_quantity = 2, in_rate = 50\<rparr>,
               \<lparr>in_description = ''Hosting'', in_quantity = 1, in_rate = 25\<rparr>]"

definition ex_body :: create_body where
  "ex_body = \<lparr>c_clientId = ''c1'', c_issueDate = 0, c_dueDate = 1000, c_notes = None,
              c_terms = None, c_currency = None, c_taxRate = Some 10, c_status = Some Sent,
              c_items = ex_items\<rparr>"

definition ex_inv :: "status \<Rightarrow> rat \<Rightarrow> invoice" where
  \<comment> \<open>the invoice that \<open>ex_body\<close> creates, with a given status and tax rate\<close>
  "ex_inv st t =
     \<lparr>inv_id = ''i1'', number = ''INV-001'', status = st, issueDate = 0, dueDate = 1000,
      subtotal = 125, taxRate = t, tax = 125 * t / 100, total = 125 + 125 * t / 100,
      inv_notes = None, inv_terms = None, currency = ''USD'', clientId = ''c1'',
      userId = ''u1'', reminderCount = 0, lastRemindedAt = None,
      items = [\<lparr>description = ''Design'', quantity = 2, rate = 50, amount = 100\<rparr>,
               \<lparr>description = ''Hosting'', quantity = 1, rate = 25, amount = 25\<rparr>]\<rparr>"

definition ex_db :: "status \<Rightarrow> rat \<Rightarrow> db" where
  "ex_db st t = ex_db0\<lparr>invoices := [ex_inv st t]\<rparr>"


definition ex_pay :: "rat \<Rightarrow> payment_body" where
  "ex_pay a = \<lparr>pb_amount = a, pb_method = ''cash'', pb_reference = None, pb_paidAt = None\<rparr>"


definition big_inv :: invoice where
  "big_inv = (ex_inv Sent 0)\<lparr>subtotal := 2 ^ 46 + 1 / 64, total := 2 ^ 46 + 1 / 64,
     items := [\<lparr>description = ''Design'', quantity = 1, rate = 2 ^ 46 + 1 / 64,
                amount = 2 ^ 46 + 1 / 64\<rparr>]\<rparr>"




definition ex_reopen :: update_body where
  "ex_reopen = \<lparr>u_clientId = None, u_issueDate = None, u_dueDate = None, u_notes = None,
                u_terms = None, u_currency = None, u_taxRate = Some 0, u_status = Some Draft,
                u_items = Some [\<lparr>in_description = ''Extra'', in_quantity = 1, in_rate = 1\<rparr>]\<rparr>"




section \<open>Properties\<close>





subsection \<open>Helper facts\<close>

lemma applyPlain_keeps:
  "items (applyPlain b i) = items i" "subtotal (applyPlain b i) = subtotal i"
  "tax (applyPlain b i) = tax i" "taxRate (applyPlain b i) = taxRate i"
  "total (applyPlain b i) = total i" "inv_id (applyPlain b i) = inv_id i"
  "userId (applyPlain b i) = userId i"
  by (simp_all add: applyPlain_def Let_def split: option.splits)

lemma totalsOk_applyPlain: "totalsOk (applyPlain b i) = totalsOk i"
  by (simp add: totalsOk_def applyPlain_keeps)


lemma applyUpdate_key:
  "inv_id (applyUpdate e b i) = inv_id i" "userId (applyUpdate e b i) = userId i"
  by (simp_all add: applyUpdate_def Let_def applyPlain_keeps split: option.splits)

lemma applyUpdate_items:
  "u_items b = Some xs \<Longrightarrow> items (applyUpdate e b i) = map mkItem xs"
  by (simp add: applyUpdate_def Let_def)

lemma applyUpdate_taxRate:
  "u_taxRate b = Some t \<Longrightarrow> taxRate (applyUpdate e b i) = t"
  by (simp add: applyUpdate_def Let_def split: option.splits)

lemma find_map_same:
  assumes "\<And>x. P (f x) = P x"
  shows "find P (map f xs) = map_option f (find P xs)"
  by (induction xs) (simp_all add: assms)

lemma findInvoice_updateRow:
  assumes "\<And>i. inv_id (f i) = inv_id i" and "\<And>i. userId (f i) = userId i"
    and "findInvoice iid uid d = Some e" and "inv_id e = jid"
  shows "findInvoice iid uid (updateInvoiceRow jid f d) = Some (f e)"
proof -
  have "find (\<lambda>i. inv_id i = iid \<and> userId i = uid)
          (map (\<lambda>i. if inv_id i = jid then f i else i) (invoices d)) =
        map_option (\<lambda>i. if inv_id i = jid then f i else i)
          (find (\<lambda>i. inv_id i = iid \<and> userId i = uid) (invoices d))"
    by (rule find_map_same) (simp add: assms(1,2))
  with assms(3,4) show ?thesis
    by (simp add: findInvoice_def updateInvoiceRow_def)
qed

lemma findInvoice_id: "findInvoice iid uid d = Some e \<Longrightarrow> inv_id e = iid \<and> userId e = uid"
  by (auto simp: findInvoice_def find_Some_iff)

lemma findInvoice_payments [simp]: "findInvoice iid uid (d\<lparr>payments := ps\<rparr>) = findInvoice iid uid d"
  by (simp add: findInvoice_def)

lemma markPaid_keeps [simp]:
  "inv_id (markPaid i) = inv_id i" "userId (markPaid i) = userId i"
  "items (markPaid i) = items i" "tax (markPaid i) = tax i" "taxRate (markPaid i) = taxRate i"
  "total (markPaid i) = total i" "subtotal (markPaid i) = subtotal i" "status (markPaid i) = Paid"
  by (simp_all add: markPaid_def)


lemma recordPayment_Inr:
  assumes "recordPayment now nid (Some uid) iid b d = (Inr p, d')"
  shows "\<exists>invoice. findInvoice iid uid d = Some invoice \<and> validPayment b \<and>
           sumPaid iid d + pb_amount b \<le> total invoice \<and>
           nid \<notin> set (map pay_id (payments d)) \<and>
           d' = (if \<bar>sumPaid iid d + pb_amount b - total invoice\<bar> < 1 / 100
                 then updateInvoiceRow iid markPaid (d\<lparr>payments := payments d @ [p]\<rparr>)
                 else d\<lparr>payments := payments d @ [p]\<rparr>)"
  using assms
  by (auto simp: recordPayment_def Let_def insertPayment_def split: option.splits if_splits)

lemma ex_create:
  "createInvoice False ''i1'' (Some ''u1'') ex_body ex_db0 = (Inr (ex_inv Sent 10), ex_db Sent 10)"
  by (simp add: createInvoice_def ex_body_def ex_db0_def ex_inv_def ex_db_def ex_items_def
      validCreate_def validItem_def Let_def mkItem_def sumAmounts_def orNull_def
      insertInvoice_def nextNumber_def invoiceNumber_def padStart3_def showNat.simps
      eval_nat_numeral)



subsection \<open>Stored totals\<close>



subsection \<open>Rejected payments\<close>



subsection \<open>Paying the balance due\<close>

text \<open>
  With exact arithmetic on the amounts, an accepted payment whose amount is the invoice
  total minus the payments recorded so far leaves the invoice with status \<open>Paid\<close>.
\<close>

lemma full_balance_payment_exact_arithmetic:
  assumes "findInvoice iid uid d = Some invoice"
    and "pb_amount b = total invoice - sumPaid iid d"
    and "recordPayment now nid (Some uid) iid b d = (Inr p, d')"
  shows "findInvoice iid uid d' = Some (invoice\<lparr>status := Paid\<rparr>)"
proof -
  from recordPayment_Inr [OF assms(3)] assms(1,2)
  have d': "d' = updateInvoiceRow iid markPaid (d\<lparr>payments := payments d @ [p]\<rparr>)"
    by auto
  have "findInvoice iid uid (d\<lparr>payments := payments d @ [p]\<rparr>) = Some invoice"
    using assms(1) by simp
  then have "findInvoice iid uid d' = Some (markPaid invoice)"
    unfolding d' using findInvoice_id [OF assms(1)]
    by (intro findInvoice_updateRow) simp_all
  then show ?thesis by (simp add: markPaid_def)
qed








text \<open>
  When the difference is not a double, the balance that the system computes is its
  rounding, and paying that balance need not mark the invoice paid. The invoice \<open>big_inv\<close>
  has the total \<open>2^46 + 2^-6\<close> and one payment of \<open>2^-7\<close>, both doubles. The balance due
  computes to \<open>2^46\<close>; a payment of that amount is accepted, the rounded cumulative sum is
  \<open>2^46\<close>, which is \<open>2^-6 > 0.01\<close> below the total, and the status stays \<open>Sent\<close>.
\<close>

lemma fl64_tenth: "fl64 (1 / 10) = 3602879701896397 / 36028797018963968"
  by code_simp

lemma big_is_double: "fl64 (total big_inv) = total big_inv \<and> fl64 (1 / 128) = 1 / 128"
  by code_simp


lemma sumPaid_updateRow [simp]: "sumPaid iid (updateInvoiceRow jid f d) = sumPaid iid d"
  by (simp add: sumPaid_def paymentsOf_def updateInvoiceRow_def)

lemma payments_updateRow [simp]: "payments (updateInvoiceRow jid f d) = payments d"
  by (simp add: updateInvoiceRow_def)



lemma findInvoiceUnique_payments [simp]:
  "findInvoiceUnique iid (d\<lparr>payments := ps\<rparr>) = findInvoiceUnique iid d"
  by (simp add: findInvoiceUnique_def)

lemma ex_find: "findInvoice ''i1'' ''u1'' (ex_db st t) = Some (ex_inv st t)"
  by (simp add: findInvoice_def ex_db_def ex_inv_def ex_db0_def)


subsection \<open>No status precondition on payments\<close>




subsection \<open>Online payment of the whole balance\<close>



subsection \<open>Overdue sweep\<close>

lemma isDue_after:
  "isDue now' uid (if isDue now uid i then i\<lparr>status := Overdue\<rparr> else i) =
     (userId i = uid \<and> status i = Sent \<and> \<not> dueDate i < now \<and> dueDate i < now')"
  by (auto simp: isDue_def)

text \<open>
  Claim C7, as amended. \<open>checkOverdueInvoices\<close> turns exactly the user's invoices with status
  sent and due date before \<open>now\<close> into overdue ones, leaves every other row and every other
  table unchanged and returns their number. Run again with the same \<open>now\<close> it changes
  nothing and returns 0. Run again with a later \<open>now'\<close> it counts the user's sent
  invoices that fell due in between (\<open>now \<le> dueDate < now'\<close>).
\<close>

theorem sweep_overdue:
  assumes "checkOverdueInvoices now uid d = (n, d')"
  shows "length (invoices d') = length (invoices d) \<and>
         (\<forall>k < length (invoices d).
            invoices d' ! k =
              (if userId (invoices d ! k) = uid \<and> status (invoices d ! k) = Sent \<and>
                  dueDate (invoices d ! k) < now
               then (invoices d ! k)\<lparr>status := Overdue\<rparr> else invoices d ! k)) \<and>
         n = length (filter (\<lambda>i. userId i = uid \<and> status i = Sent \<and> dueDate i < now) (invoices d)) \<and>
         users d' = users d \<and> clients d' = clients d \<and> payments d' = payments d \<and>
         checkOverdueInvoices now uid d' = (0, d') \<and>
         (\<forall>now'. now \<le> now' \<longrightarrow>
            fst (checkOverdueInvoices now' uid d') =
              length (filter (\<lambda>i. userId i = uid \<and> status i = Sent \<and> now \<le> dueDate i \<and> dueDate i < now')
                        (invoices d)))"
proof -
  let ?f = "\<lambda>i. if isDue now uid i then i\<lparr>status := Overdue\<rparr> else i"
  from assms have n: "n = length (filter (isDue now uid) (invoices d))"
    and d': "d' = d\<lparr>invoices := map ?f (invoices d)\<rparr>"
    by (simp_all add: checkOverdueInvoices_def)
  have again: "\<And>now'. filter (isDue now' uid) (map ?f (invoices d)) =
      map ?f (filter (\<lambda>i. userId i = uid \<and> status i = Sent \<and> \<not> dueDate i < now \<and> dueDate i < now')
                (invoices d))"
    by (simp add: filter_map o_def isDue_after)
  have twice: "map ?f (map ?f (invoices d)) = map ?f (invoices d)"
    by (simp add: isDue_def)
  have "checkOverdueInvoices now uid d' = (0, d')"
    unfolding checkOverdueInvoices_def d' by (simp add: again twice del: map_map)
  moreover have "\<forall>now'. now \<le> now' \<longrightarrow>
            fst (checkOverdueInvoices now' uid d') =
              length (filter (\<lambda>i. userId i = uid \<and> status i = Sent \<and> now \<le> dueDate i \<and> dueDate i < now')
                        (invoices d))"
    unfolding checkOverdueInvoices_def d' by (simp add: again not_less)
  ultimately show ?thesis
    by (simp add: n d' isDue_def [abs_def])
qed

theorem sweep_overdue_witness:
  "checkOverdueInvoices 2000 ''u1'' (ex_db Sent 10) = (1, ex_db Overdue 10) \<and>
   length (invoices (ex_db Overdue 10)) = length (invoices (ex_db Sent 10)) \<and>
   checkOverdueInvoices 2000 ''u1'' (ex_db Overdue 10) = (0, ex_db Overdue 10)"
proof -
  have r: "checkOverdueInvoices 2000 ''u1'' (ex_db Sent 10) = (1, ex_db Overdue 10)"
    by (simp add: checkOverdueInvoices_def isDue_def ex_db_def ex_inv_def ex_db0_def)
  from sweep_overdue [OF r] r show ?thesis by simp
qed

text \<open>
  A second run at a later time is not idle in general: the example invoice is due at 1000;
  a sweep at 500 finds nothing, the next sweep at 2000 marks it overdue.
\<close>

theorem sweep_later_counterexample:
  "fst (checkOverdueInvoices 500 ''u1'' (ex_db Sent 10)) = 0 \<and> (500 :: int) \<le> 2000 \<and>
   fst (checkOverdueInvoices 2000 ''u1'' (snd (checkOverdueInvoices 500 ''u1'' (ex_db Sent 10)))) = 1"
  by (simp add: checkOverdueInvoices_def isDue_def ex_db_def ex_inv_def ex_db0_def)

subsection \<open>Duplication\<close>

lemma duplicateInvoice_fields:
  assumes "duplicateInvoice uq now nid (Some uid) iid d = (Inr c, d')"
    and "findInvoice iid uid d = Some src"
  shows "status c = Draft \<and> inv_id c = nid \<and> inv_id c \<noteq> inv_id src \<and>
         items c = items src \<and> issueDate c = now \<and> dueDate c = now + days30 \<and>
         inv_notes c = inv_notes src \<and> inv_terms c = inv_terms src \<and>
         clientId c = clientId src \<and> total c = total src \<and>
         payments d' = payments d \<and> invoices d' = invoices d @ [c] \<and>
         (\<exists>u. find (\<lambda>u. user_id u = uid) (users d) = Some u \<and>
              number c = invoiceNumber (invoiceCounter u + 1))"
proof -
  from assms(2) have src: "src \<in> set (invoices d)"
    by (auto simp: findInvoice_def find_Some_iff)
  have same: "map (\<lambda>it. \<lparr>description = description it, quantity = quantity it, rate = rate it,
                         amount = amount it\<rparr>) (items src) = items src"
    by (induction "items src") (simp_all add: map_idI)
  from assms src show ?thesis
    by (auto simp: duplicateInvoice_def Let_def insertInvoice_def bumpCounter_def map_idI
          split: option.splits sum.splits if_splits)
qed

text \<open>
  Claim C5. The copy made by \<open>duplicateInvoice\<close> has status draft, the new id, the items of
  the source, issue date \<open>now\<close>, due date thirty days later and no payments of its own
  (lemmas \<open>duplicateInvoice_fields\<close>, \<open>duplicateInvoice_no_payments\<close>). Its number, however, comes from the user's
  \<open>invoiceCounter\<close>, which \<open>createInvoice\<close> never advances: for a user whose counter is 0,
  the first created invoice is INV-001 and its duplicate is numbered INV-001 again. If the
  schema declares the number unique, the insert fails instead and no copy is returned.
\<close>

theorem duplicate_number_collision:
  "createInvoice False ''i1'' (Some ''u1'') ex_body ex_db0 = (Inr (ex_inv Sent 10), ex_db Sent 10) \<and>
   number (ex_inv Sent 10) = ''INV-001'' \<and>
   map_sum id number (fst (duplicateInvoice False 7 ''i2'' (Some ''u1'') ''i1'' (ex_db Sent 10))) =
     Inr ''INV-001'' \<and>
   duplicateInvoice True 7 ''i2'' (Some ''u1'') ''i1'' (ex_db Sent 10) =
     (Inl UniqueConstraint, ex_db Sent 10)"
proof -
  have "map_sum id number (fst (duplicateInvoice False 7 ''i2'' (Some ''u1'') ''i1'' (ex_db Sent 10))) =
     Inr ''INV-001''"
    by code_simp
  moreover have "duplicateInvoice True 7 ''i2'' (Some ''u1'') ''i1'' (ex_db Sent 10) =
     (Inl UniqueConstraint, ex_db Sent 10)"
    by code_simp
  moreover have "number (ex_inv Sent 10) = ''INV-001''" by (simp add: ex_inv_def)
  ultimately show ?thesis using ex_create by simp
qed



lemma duplicateInvoice_no_payments:
  assumes "duplicateInvoice uq now nid (Some uid) iid d = (Inr c, d')"
    and "\<forall>p \<in> set (payments d). invoiceId p \<in> set (map inv_id (invoices d))"
  shows "paymentsOf (inv_id c) d' = []"
proof -
  from assms(1) have fresh: "nid \<notin> set (map inv_id (invoices d))" and c: "inv_id c = nid"
    and same: "payments d' = payments d"
    by (auto simp: duplicateInvoice_def Let_def insertInvoice_def bumpCounter_def
          split: option.splits sum.splits if_splits)
  from assms(2) fresh have "\<And>p. p \<in> set (payments d) \<Longrightarrow> invoiceId p \<noteq> nid"
    by blast
  then show ?thesis
    by (simp add: paymentsOf_def filter_empty_conv c same)
qed


lemma status_applyUpdate:
  "status (applyUpdate e b i) = (case u_status b of None \<Rightarrow> status i | Some s \<Rightarrow> s)"
  by (simp add: applyUpdate_def applyPlain_def Let_def split: option.splits)

lemma tax_applyUpdate:
  "u_taxRate b = Some t \<Longrightarrow>
   tax (applyUpdate e b e) = subtotal (applyUpdate e b e) * (t / 100)"
  by (simp add: applyUpdate_def Let_def applyPlain_keeps split: option.splits)

lemma findInvoice_sweep:
  assumes "findInvoice iid uid d = Some invoice" and "status invoice \<noteq> Sent"
  shows "findInvoice iid uid (snd (checkOverdueInvoices now uid' d)) = Some invoice"
proof -
  let ?f = "\<lambda>i. if isDue now uid' i then i\<lparr>status := Overdue\<rparr> else i"
  have "find (\<lambda>i. inv_id i = iid \<and> userId i = uid) (map ?f (invoices d)) =
        map_option ?f (find (\<lambda>i. inv_id i = iid \<and> userId i = uid) (invoices d))"
    by (rule find_map_same) simp
  with assms show ?thesis
    by (simp add: findInvoice_def checkOverdueInvoices_def isDue_def)
qed

lemma findInvoice_recordPayment:
  assumes "findInvoice iid uid d = Some invoice"
  shows "findInvoice iid uid (snd (recordPayment now nid (Some uid) iid b d)) = Some invoice \<or>
         findInvoice iid uid (snd (recordPayment now nid (Some uid) iid b d)) = Some (markPaid invoice)"
proof (cases "fst (recordPayment now nid (Some uid) iid b d)")
  case (Inl e)
  then have "isl (fst (recordPayment now nid (Some uid) iid b d))" by simp
  with assms show ?thesis
    by (auto simp: recordPayment_def Let_def insertPayment_def split: if_splits)
next
  case (Inr p)
  then have "recordPayment now nid (Some uid) iid b d =
      (Inr p, snd (recordPayment now nid (Some uid) iid b d))"
    by (simp add: prod_eq_iff)
  from recordPayment_Inr [OF this]
  have d': "snd (recordPayment now nid (Some uid) iid b d) = d\<lparr>payments := payments d @ [p]\<rparr> \<or>
            snd (recordPayment now nid (Some uid) iid b d) =
              updateInvoiceRow iid markPaid (d\<lparr>payments := payments d @ [p]\<rparr>)"
    by (auto split: if_splits)
  have "findInvoice iid uid (updateInvoiceRow iid markPaid (d\<lparr>payments := payments d @ [p]\<rparr>)) =
      Some (markPaid invoice)"
    using assms findInvoice_id [OF assms] by (intro findInvoice_updateRow) simp_all
  with d' assms show ?thesis by auto
qed

subsection \<open>Paid and cancelled invoices\<close>

text \<open>
  Claim C4, as amended. For an invoice of the caller whose status is paid or cancelled:
  \<open>sendInvoice\<close> and \<open>sendReminder\<close> reject the request and leave the store as it was, and
  so does the e-mail route for an invoice or reminder e-mail (a confirmation e-mail writes
  nothing); the overdue sweep leaves the row as it is; \<open>recordPayment\<close> never changes items, subtotal, tax
  rate, tax or total, keeps a paid invoice paid and can only move a cancelled one to paid.
  \<open>updateInvoice\<close> has no status guard: for every valid body it succeeds and stores the
  status, the items and the tax rate that the body carries.
\<close>

theorem terminal_status_guards:
  assumes "findInvoice iid uid d = Some invoice"
    and "status invoice = Paid \<or> status invoice = Cancelled"
  shows "sendInvoice (Some uid) iid d =
           (Inl (BadRequest ''Only draft or sent invoices can be sent''), d) \<and>
         sendReminder now (Some uid) iid d =
           (Inl (BadRequest ''Can only send reminders for sent or overdue invoices''), d) \<and>
         snd (sendEmail now (Some uid) iid ty d) = d \<and>
         findInvoice iid uid (snd (checkOverdueInvoices now uid' d)) = Some invoice \<and>
         (\<exists>i'. findInvoice iid uid (snd (recordPayment now nid (Some uid) iid pb d)) = Some i' \<and>
               items i' = items invoice \<and> subtotal i' = subtotal invoice \<and>
               taxRate i' = taxRate invoice \<and> tax i' = tax invoice \<and> total i' = total invoice \<and>
               (status i' = status invoice \<or> status i' = Paid) \<and>
               (status invoice = Paid \<longrightarrow> status i' = Paid)) \<and>
         (validUpdate ub \<longrightarrow>
            fst (updateInvoice (Some uid) iid ub d) = Inr (applyUpdate invoice ub invoice) \<and>
            findInvoice iid uid (snd (updateInvoice (Some uid) iid ub d)) =
              Some (applyUpdate invoice ub invoice) \<and>
            (\<forall>s. u_status ub = Some s \<longrightarrow> status (applyUpdate invoice ub invoice) = s) \<and>
            (\<forall>xs. u_items ub = Some xs \<longrightarrow> items (applyUpdate invoice ub invoice) = map mkItem xs) \<and>
            (\<forall>t. u_taxRate ub = Some t \<longrightarrow>
               taxRate (applyUpdate invoice ub invoice) = t \<and>
               tax (applyUpdate invoice ub invoice) = subtotal (applyUpdate invoice ub invoice) * (t / 100)))"
proof -
  have send: "sendInvoice (Some uid) iid d =
           (Inl (BadRequest ''Only draft or sent invoices can be sent''), d)"
    using assms by (auto simp: sendInvoice_def)
  have remind: "sendReminder now (Some uid) iid d =
           (Inl (BadRequest ''Can only send reminders for sent or overdue invoices''), d)"
    using assms by (auto simp: sendReminder_def)
  have mail: "snd (sendEmail now (Some uid) iid ty d) = d"
    using assms by (cases ty) (auto simp: sendEmail_def)
  have sweep: "findInvoice iid uid (snd (checkOverdueInvoices now uid' d)) = Some invoice"
    using assms by (intro findInvoice_sweep) auto
  have pay: "\<exists>i'. findInvoice iid uid (snd (recordPayment now nid (Some uid) iid pb d)) = Some i' \<and>
               items i' = items invoice \<and> subtotal i' = subtotal invoice \<and>
               taxRate i' = taxRate invoice \<and> tax i' = tax invoice \<and> total i' = total invoice \<and>
               (status i' = status invoice \<or> status i' = Paid) \<and>
               (status invoice = Paid \<longrightarrow> status i' = Paid)"
    using findInvoice_recordPayment [OF assms(1), of now nid pb] by auto
  have upd: "validUpdate ub \<Longrightarrow>
      fst (updateInvoice (Some uid) iid ub d) = Inr (applyUpdate invoice ub invoice) \<and>
      findInvoice iid uid (snd (updateInvoice (Some uid) iid ub d)) =
        Some (applyUpdate invoice ub invoice)"
    using assms(1) findInvoice_id [OF assms(1)]
    by (simp add: updateInvoice_def findInvoice_updateRow applyUpdate_key)
  from send remind mail sweep pay upd show ?thesis
    by (simp add: status_applyUpdate applyUpdate_items applyUpdate_taxRate tax_applyUpdate)
qed

theorem terminal_status_guards_witness:
  "findInvoice ''i1'' ''u1'' (ex_db Paid 10) = Some (ex_inv Paid 10) \<and>
   status (ex_inv Paid 10) = Paid \<and> validUpdate ex_reopen \<and>
   sendInvoice (Some ''u1'') ''i1'' (ex_db Paid 10) =
     (Inl (BadRequest ''Only draft or sent invoices can be sent''), ex_db Paid 10) \<and>
   sendReminder 5 (Some ''u1'') ''i1'' (ex_db Paid 10) =
     (Inl (BadRequest ''Can only send reminders for sent or overdue invoices''), ex_db Paid 10) \<and>
   findInvoice ''i1'' ''u1'' (snd (checkOverdueInvoices 2000 ''u1'' (ex_db Paid 10))) =
     Some (ex_inv Paid 10) \<and>
   fst (updateInvoice (Some ''u1'') ''i1'' ex_reopen (ex_db Paid 10)) =
     Inr (applyUpdate (ex_inv Paid 10) ex_reopen (ex_inv Paid 10)) \<and>
   status (applyUpdate (ex_inv Paid 10) ex_reopen (ex_inv Paid 10)) = Draft"
proof -
  have s: "status (ex_inv Paid 10) = Paid" by (simp add: ex_inv_def)
  then have t: "status (ex_inv Paid 10) = Paid \<or> status (ex_inv Paid 10) = Cancelled" by simp
  have v: "validUpdate ex_reopen \<and> u_status ex_reopen = Some Draft"
    by (simp add: validUpdate_def ex_reopen_def)
  from terminal_status_guards [OF ex_find t, where now = 5 and uid' = "''u1''"
         and nid = "''p1''" and pb = "ex_pay 1" and ub = ex_reopen and ty = InvoiceEmail]
       terminal_status_guards [OF ex_find t, where now = 2000 and uid' = "''u1''"
         and nid = "''p1''" and pb = "ex_pay 1" and ub = ex_reopen and ty = InvoiceEmail]
       s v ex_find [of Paid 10]
  show ?thesis by simp
qed

text \<open>
  The states are therefore not terminal. A paid invoice is reopened by an update that sends
  status draft, a new item list and tax rate 0; a cancelled invoice becomes paid when a
  payment of its total is recorded.
\<close>

theorem terminal_status_counterexample:
  "findInvoice ''i1'' ''u1'' (ex_db Paid 10) = Some (ex_inv Paid 10) \<and>
   status (ex_inv Paid 10) = Paid \<and> tax (ex_inv Paid 10) = 25 / 2 \<and>
   map description (items (ex_inv Paid 10)) = [''Design'', ''Hosting''] \<and>
   map_option status
     (findInvoice ''i1'' ''u1'' (snd (updateInvoice (Some ''u1'') ''i1'' ex_reopen (ex_db Paid 10)))) =
     Some Draft \<and>
   map_option tax
     (findInvoice ''i1'' ''u1'' (snd (updateInvoice (Some ''u1'') ''i1'' ex_reopen (ex_db Paid 10)))) =
     Some 0 \<and>
   map_option items
     (findInvoice ''i1'' ''u1'' (snd (updateInvoice (Some ''u1'') ''i1'' ex_reopen (ex_db Paid 10)))) =
     Some [\<lparr>description = ''Extra'', quantity = 1, rate = 1, amount = 1\<rparr>] \<and>
   findInvoice ''i1'' ''u1'' (ex_db Cancelled 10) = Some (ex_inv Cancelled 10) \<and>
   status (ex_inv Cancelled 10) = Cancelled \<and>
   map_option status
     (findInvoice ''i1'' ''u1''
        (snd (recordPayment 5 ''p1'' (Some ''u1'') ''i1'' (ex_pay (275 / 2)) (ex_db Cancelled 10)))) =
     Some Paid"
  by code_simp

subsection \<open>Duplicate detection\<close>












subsection \<open>Line-item suggestions\<close>














end
